theory Spec2Isabelle
  imports Complex_Main
begin

section \<open>Period comparison of two monthly data sets\<close>

text \<open>
  The repository holds several scripts that compare a current and a prior month of a
  table: \<^verbatim>\<open>data_analyzer.py\<close> (interactive, by dimension),
  \<^verbatim>\<open>data_analyzer_v2.py\<close> (adds the interval mode),
  \<^verbatim>\<open>auto_monthly_analysis.py\<close> (no interaction) and
  \<^verbatim>\<open>data_analysis_report.py\<close> (report generator).  The scripts are written on
  top of a data-frame library.  The theory embeds the functions of the scripts; the library
  calls they make are given their cell-level meaning, with these idealisations:

  \<^item> a number held in a cell is a real number, so sums and quotients are exact; the
    non-finite floating-point values (the two infinities and NaN) are kept as separate
    values, because the scripts produce and test them;
  \<^item> the order of the rows of a grouped or merged frame is not modelled (the library sorts
    them by key); each group is listed once, in an order that carries no meaning;
  \<^item> the names of the derived columns (the month suffixes, the change and the growth column
    of a metric) are kept apart by role, as fields of a row, and not as strings;
  \<^item> what the library decides by itself and the scripts do not fix is a parameter: how a
    text is parsed as a number, how a number is printed, and whether a group-by on a
    categorical column lists the categories that no row has.
\<close>

subsection \<open>Cells and floating-point results\<close>

text \<open>A cell of a loaded frame: a text, a number, or the missing value (NaN, None).\<close>

datatype val = Text string | Num real | Missing

text \<open>A floating-point value of a computed column: finite, plus or minus infinity, NaN.\<close>

datatype fval = Fin real | PInf | NInf | NaN

datatype error = KeyError | ValueError | TypeError

fun fneg :: "fval \<Rightarrow> fval" where
  "fneg (Fin a) = Fin (- a)"
| "fneg PInf = NInf"
| "fneg NInf = PInf"
| "fneg NaN = NaN"

fun fadd :: "fval \<Rightarrow> fval \<Rightarrow> fval" where
  "fadd NaN _ = NaN"
| "fadd _ NaN = NaN"
| "fadd (Fin a) (Fin b) = Fin (a + b)"
| "fadd (Fin a) b = b"
| "fadd a (Fin b) = a"
| "fadd PInf PInf = PInf"
| "fadd NInf NInf = NInf"
| "fadd PInf NInf = NaN"
| "fadd NInf PInf = NaN"

definition fsub :: "fval \<Rightarrow> fval \<Rightarrow> fval" where
  "fsub a b = fadd a (fneg b)"

text \<open>The sign of a value that is not NaN: \<open>-1\<close>, \<open>0\<close> or \<open>1\<close>.\<close>

fun fsgn :: "fval \<Rightarrow> real" where
  "fsgn (Fin a) = sgn a"
| "fsgn PInf = 1"
| "fsgn NInf = - 1"
| "fsgn NaN = 0"

definition inf_of_sign :: "real \<Rightarrow> fval" where
  "inf_of_sign s = (if s = 0 then NaN else if 0 < s then PInf else NInf)"

fun fmul :: "fval \<Rightarrow> fval \<Rightarrow> fval" where
  "fmul NaN _ = NaN"
| "fmul _ NaN = NaN"
| "fmul (Fin a) (Fin b) = Fin (a * b)"
| "fmul a b = inf_of_sign (fsgn a * fsgn b)"

text \<open>
  Division as the array library does it (a quotient by zero is an infinity or NaN, not an
  exception).  Every division of the scripts is guarded by a test of the divisor against
  zero, so the zero-divisor equations are never reached from them.
\<close>

fun fdiv :: "fval \<Rightarrow> fval \<Rightarrow> fval" where
  "fdiv NaN _ = NaN"
| "fdiv _ NaN = NaN"
| "fdiv (Fin a) (Fin b) = (if b = 0 then inf_of_sign (sgn a) else Fin (a / b))"
| "fdiv (Fin a) b = Fin 0"
| "fdiv a (Fin b) = (if b = 0 then a else inf_of_sign (fsgn a * sgn b))"
| "fdiv a b = NaN"

text \<open>\<open>a > b\<close> on floating-point values: false as soon as one side is NaN.\<close>

fun fgt :: "fval \<Rightarrow> fval \<Rightarrow> bool" where
  "fgt NaN _ = False"
| "fgt _ NaN = False"
| "fgt (Fin a) (Fin b) = (b < a)"
| "fgt PInf b = (b \<noteq> PInf)"
| "fgt a NInf = (a \<noteq> NInf)"
| "fgt a b = False"

text \<open>\<open>pd.isna\<close> on a number.\<close>

definition isna :: "fval \<Rightarrow> bool" where
  "isna v = (v = NaN)"

text \<open>
  Rounding to the nearest integer, ties to the even one, and \<open>round(x, 2)\<close> of a float:
  the value times 100, rounded so, divided by 100.
\<close>

definition rint :: "real \<Rightarrow> int" where
  "rint x =
     (let f = \<lfloor>x\<rfloor>; d = x - of_int f
      in if d < 1 / 2 then f else if 1 / 2 < d then f + 1 else if even f then f else f + 1)"

definition round2 :: "real \<Rightarrow> real" where
  "round2 x = of_int (rint (x * 100)) / 100"

fun fround2 :: "fval \<Rightarrow> fval" where
  "fround2 (Fin a) = Fin (round2 a)"
| "fround2 v = v"

subsection \<open>The growth rate of one group and metric, in the three scripts\<close>

text \<open>
  \<^verbatim>\<open>data_analyzer.py\<close> and \<^verbatim>\<open>data_analyzer_v2.py\<close>,
  \<^verbatim>\<open>calculate_comparison\<close>, the function applied to each row:
  \<^verbatim>\<open>round((cur - prev) / prev * 100, 2) if prev != 0 else (100.0 if cur > 0 else 0.0)\<close>.
\<close>

definition growth_lambda :: "fval \<Rightarrow> fval \<Rightarrow> fval" where
  "growth_lambda c p =
     (if p \<noteq> Fin 0 then fround2 (fmul (fdiv (fsub c p) p) (Fin 100))
      else (if fgt c (Fin 0) then Fin 100 else Fin 0))"

text \<open>
  \<^verbatim>\<open>auto_monthly_analysis.py\<close>, \<^verbatim>\<open>calculate_growth_rate\<close>, on one
  element of the two columns: the masked division whose output array is filled with
  infinity, then the two \<^verbatim>\<open>np.where\<close> corrections, in the source's order.
\<close>

definition masked_divide :: "fval \<Rightarrow> fval \<Rightarrow> fval" where
  "masked_divide c p = (if p \<noteq> Fin 0 then fdiv (fsub c p) p else PInf)"

definition growth_rate_cell :: "fval \<Rightarrow> fval \<Rightarrow> fval" where
  "growth_rate_cell c p =
     (let g1 = masked_divide c p;
          g2 = (if p = Fin 0 \<and> fgt c (Fin 0) then PInf else g1);
          g3 = (if p = Fin 0 \<and> c = Fin 0 then Fin 0 else g2)
      in g3)"

text \<open>
  \<^verbatim>\<open>data_analysis_report.py\<close>, \<^verbatim>\<open>calculate_growth_rates\<close>: the
  month-over-month and the year-over-year rate.
\<close>

definition calculate_growth_rates :: "fval \<Rightarrow> fval \<Rightarrow> fval \<Rightarrow> fval \<times> fval" where
  "calculate_growth_rates current_value last_month_value last_year_value =
     (let mom_growth =
            (if isna last_month_value \<or> last_month_value = Fin 0 then NaN
             else fmul (fdiv (fsub current_value last_month_value) last_month_value) (Fin 100));
          yoy_growth =
            (if isna last_year_value \<or> last_year_value = Fin 0 then NaN
             else fmul (fdiv (fsub current_value last_year_value) last_year_value) (Fin 100))
      in (mom_growth, yoy_growth))"

subsection \<open>Frames and what the library is asked to do\<close>

text \<open>
  A loaded frame: its column names in order, the declared type of each column (by name, as
  \<^verbatim>\<open>str(dtype)\<close> prints it), its rows, and for a categorical column the list of
  its categories.  A row is read only at the names of the frame's columns.
\<close>

record frame =
  columns :: "string list"
  dtype :: "string \<Rightarrow> string"
  rows :: "(string \<Rightarrow> val) list"
  categories :: "string \<Rightarrow> string list option"

text \<open>
  What the library decides and the scripts leave open.
  \<^item> \<open>to_number\<close>: the number a text cell is parsed as by \<^verbatim>\<open>pd.to_numeric\<close>, if any;
  \<^item> \<open>number_text\<close>: how a cutpoint is printed inside an f-string;
  \<^item> \<open>observed_default\<close>: whether a group-by on a categorical column lists only the
    categories that occur (the scripts never pass \<^verbatim>\<open>observed\<close>, and the default
    differs between library versions);
  \<^item> \<open>numeric_sample_ok\<close>: whether \<^verbatim>\<open>pd.to_numeric(sample, errors='raise')\<close>
    succeeds on a sample of a column of the given type;
  \<^item> \<open>is_string_dtype\<close>, \<open>is_numeric_dtype\<close>, \<open>str_lower\<close>: the library's type
    predicates and \<^verbatim>\<open>str.lower\<close>.
\<close>

record pandas =
  to_number :: "string \<Rightarrow> real option"
  number_text :: "real \<Rightarrow> string"
  observed_default :: bool
  numeric_sample_ok :: "string \<Rightarrow> val list \<Rightarrow> bool"
  is_string_dtype :: "string \<Rightarrow> bool"
  is_numeric_dtype :: "string \<Rightarrow> bool"
  str_lower :: "string \<Rightarrow> string"

text \<open>\<^verbatim>\<open>pd.to_numeric(column, errors='coerce')\<close> on one cell.\<close>

fun to_numeric_coerce :: "pandas \<Rightarrow> val \<Rightarrow> val" where
  "to_numeric_coerce L (Text s) = (case to_number L s of Some x \<Rightarrow> Num x | None \<Rightarrow> Missing)"
| "to_numeric_coerce L (Num x) = Num x"
| "to_numeric_coerce L Missing = Missing"

text \<open>\<^verbatim>\<open>df[col] = pd.to_numeric(df[col], errors='coerce')\<close> on a copy of the frame.\<close>

definition coerce_column :: "pandas \<Rightarrow> string \<Rightarrow> frame \<Rightarrow> frame" where
  "coerce_column L col df =
     df\<lparr>rows := map (\<lambda>r. r(col := to_numeric_coerce L (r col))) (rows df),
        dtype := (dtype df)(col := ''float64'')\<rparr>"

subsection \<open>Group-by and sum\<close>

text \<open>
  The result of \<^verbatim>\<open>df.groupby(keys)[metrics].sum().reset_index()\<close>: the key columns,
  the summed columns, and one row per group, holding the group's key (the values of the key
  columns) and the total of each summed column.
\<close>

record agg =
  key_cols :: "string list"
  metric_cols :: "string list"
  groups :: "(val list \<times> (string \<Rightarrow> real)) list"

text \<open>\<^verbatim>\<open>pd.DataFrame()\<close>, which the scripts return when something failed.\<close>

definition empty_agg :: agg where
  "empty_agg = \<lparr>key_cols = [], metric_cols = [], groups = []\<rparr>"

definition key_of :: "string list \<Rightarrow> (string \<Rightarrow> val) \<Rightarrow> val list" where
  "key_of by r = map r by"

text \<open>A group-by drops every row that has a missing value in a key column.\<close>

definition complete_rows :: "frame \<Rightarrow> string list \<Rightarrow> (string \<Rightarrow> val) list" where
  "complete_rows df by = filter (\<lambda>r. list_all (\<lambda>c. r c \<noteq> Missing) by) (rows df)"

definition observed_keys :: "frame \<Rightarrow> string list \<Rightarrow> val list list" where
  "observed_keys df by = remdups (map (key_of by) (complete_rows df by))"

text \<open>
  The categories of a categorical key column that no row has.  The scripts group by a
  categorical column only in the interval mode, and then by that column alone; for a key
  list of any other shape no category is added.
\<close>

definition unobserved_keys :: "frame \<Rightarrow> string list \<Rightarrow> val list list" where
  "unobserved_keys df by =
     (case by of
        [c] \<Rightarrow> (case categories df c of
                  Some labels \<Rightarrow>
                    filter (\<lambda>k. k \<notin> set (observed_keys df by)) (map (\<lambda>l. [Text l]) labels)
                | None \<Rightarrow> [])
      | _ \<Rightarrow> [])"

definition group_keys :: "bool \<Rightarrow> frame \<Rightarrow> string list \<Rightarrow> val list list" where
  "group_keys observed df by =
     observed_keys df by @ (if observed then [] else unobserved_keys df by)"

text \<open>A sum skips the missing cells; the sum of no cell is 0.\<close>

fun num0 :: "val \<Rightarrow> real" where
  "num0 (Num x) = x"
| "num0 _ = 0"

fun is_text :: "val \<Rightarrow> bool" where
  "is_text (Text s) = True"
| "is_text _ = False"

definition group_total :: "frame \<Rightarrow> string list \<Rightarrow> val list \<Rightarrow> string \<Rightarrow> real" where
  "group_total df by k m =
     sum_list (map (\<lambda>r. num0 (r m)) (filter (\<lambda>r. key_of by r = k) (complete_rows df by)))"

text \<open>
  The group-by itself.  No key is an error of the library, a column that the frame does not
  have is a \<^verbatim>\<open>KeyError\<close>; a text cell in a summed column is reported as a
  \<^verbatim>\<open>TypeError\<close> (the scripts of the interactive tools coerce the summed columns to
  numbers first, so they never meet it).
\<close>

definition groupby_sum :: "bool \<Rightarrow> frame \<Rightarrow> string list \<Rightarrow> string list \<Rightarrow> error + agg" where
  "groupby_sum observed df by ms =
     (if by = [] then Inl ValueError
      else if \<not> set by \<subseteq> set (columns df) \<or> \<not> set ms \<subseteq> set (columns df) then Inl KeyError
      else if list_ex (\<lambda>m. list_ex (\<lambda>r. is_text (r m)) (complete_rows df by)) ms
        then Inl TypeError
      else Inr \<lparr>key_cols = by, metric_cols = ms,
                groups = map (\<lambda>k. (k, group_total df by k)) (group_keys observed df by)\<rparr>)"

text \<open>
  \<^verbatim>\<open>data_analyzer.py\<close>, \<^verbatim>\<open>group_and_summarize\<close>: every metric column is
  coerced, then the frame is grouped and summed; any exception gives the empty frame.
\<close>

definition group_and_summarize :: "pandas \<Rightarrow> frame \<Rightarrow> string list \<Rightarrow> string list \<Rightarrow> agg" where
  "group_and_summarize L df group_by_cols metric_cols' =
     (if \<not> set metric_cols' \<subseteq> set (columns df) then empty_agg
      else
        let df_copy = fold (coerce_column L) metric_cols' df
        in case groupby_sum (observed_default L) df_copy group_by_cols metric_cols' of
             Inl e \<Rightarrow> empty_agg
           | Inr grouped \<Rightarrow> grouped)"

text \<open>
  \<^verbatim>\<open>data_analyzer_v2.py\<close>, \<^verbatim>\<open>group_and_summarize\<close>: only the metric
  columns that the frame has are coerced and summed.
\<close>

definition group_and_summarize_v2 :: "pandas \<Rightarrow> frame \<Rightarrow> string list \<Rightarrow> string list \<Rightarrow> agg" where
  "group_and_summarize_v2 L df group_by_cols metric_cols' =
     (let df_copy = fold (coerce_column L) (filter (\<lambda>col. col \<in> set (columns df)) metric_cols') df;
          available_metrics = filter (\<lambda>col. col \<in> set (columns df_copy)) metric_cols'
      in case groupby_sum (observed_default L) df_copy group_by_cols available_metrics of
           Inl e \<Rightarrow> empty_agg
         | Inr grouped \<Rightarrow> grouped)"

text \<open>
  \<^verbatim>\<open>auto_monthly_analysis.py\<close>, \<^verbatim>\<open>aggregate_data\<close>: without a dimension the
  metric columns are summed over the whole frame into one row; without a metric the empty
  frame is returned; otherwise group-by and sum, with no coercion and no exception handler
  (so a text cell in a summed column ends the run, here as a \<^verbatim>\<open>TypeError\<close>).
\<close>

definition column_total :: "frame \<Rightarrow> string \<Rightarrow> real" where
  "column_total df m = sum_list (map (\<lambda>r. num0 (r m)) (rows df))"

definition aggregate_data :: "pandas \<Rightarrow> frame \<Rightarrow> string list \<Rightarrow> string list \<Rightarrow> error + agg" where
  "aggregate_data L df dimension_cols metric_cols' =
     (if dimension_cols = [] then
        (if \<not> set metric_cols' \<subseteq> set (columns df) then Inl KeyError
         else if list_ex (\<lambda>m. list_ex (\<lambda>r. is_text (r m)) (rows df)) metric_cols' then Inl TypeError
         else Inr \<lparr>key_cols = [], metric_cols = metric_cols', groups = [([], column_total df)]\<rparr>)
      else if metric_cols' = [] then Inr empty_agg
      else groupby_sum (observed_default L) df dimension_cols metric_cols')"

subsection \<open>Merging the two months\<close>

text \<open>
  A row of the merged frame: the values of the key columns, for each metric the cell of its
  current-month column and of its prior-month column (NaN where the month has no such
  group), and the change and growth columns once they have been added.
\<close>

record mrow =
  mkey :: "val list"
  cur :: "string \<Rightarrow> fval"
  prev :: "string \<Rightarrow> fval"
  change :: "string \<Rightarrow> fval option"
  growth :: "string \<Rightarrow> fval option"

text \<open>
  The merged frame: the columns merged on, the metrics that both frames have (only these
  get the two month suffixes), and the rows.
\<close>

record merged =
  m_on :: "string list"
  m_cols :: "string list"
  m_rows :: "mrow list"

definition side :: "(string \<Rightarrow> real) option \<Rightarrow> string \<Rightarrow> fval" where
  "side t = (case t of None \<Rightarrow> (\<lambda>m. NaN) | Some f \<Rightarrow> (\<lambda>m. Fin (f m)))"

definition joined :: "val list \<Rightarrow> (string \<Rightarrow> real) option \<Rightarrow> (string \<Rightarrow> real) option \<Rightarrow> mrow" where
  "joined k c p =
     \<lparr>mkey = k, cur = side c, prev = side p, change = (\<lambda>m. None), growth = (\<lambda>m. None)\<rparr>"

text \<open>
  \<^verbatim>\<open>pd.merge(left, right, on=keys, how='outer')\<close> for two grouped frames: a left row
  is paired with every right row of the same key, or kept alone; the right rows whose key no
  left row has follow.  Both frames must have been grouped by the columns merged on, as
  they are wherever the scripts merge; a merge on other columns is reported as a
  \<^verbatim>\<open>KeyError\<close> (a column merged on that a frame does not have raises it).
\<close>

definition left_rows :: "agg \<Rightarrow> agg \<Rightarrow> mrow list" where
  "left_rows l r =
     concat (map (\<lambda>(k, t).
        case filter (\<lambda>g. fst g = k) (groups r) of
          [] \<Rightarrow> [joined k (Some t) None]
        | gs \<Rightarrow> map (\<lambda>g. joined k (Some t) (Some (snd g))) gs) (groups l))"

definition right_only_rows :: "agg \<Rightarrow> agg \<Rightarrow> mrow list" where
  "right_only_rows l r =
     map (\<lambda>(k, u). joined k None (Some u))
       (filter (\<lambda>g. fst g \<notin> set (map fst (groups l))) (groups r))"

definition merge_outer :: "agg \<Rightarrow> agg \<Rightarrow> string list \<Rightarrow> error + merged" where
  "merge_outer l r on =
     (if key_cols l \<noteq> on \<or> key_cols r \<noteq> on then Inl KeyError
      else Inr \<lparr>m_on = on,
                m_cols = filter (\<lambda>c. c \<in> set (metric_cols r)) (metric_cols l),
                m_rows = left_rows l r @ right_only_rows l r\<rparr>)"

definition fillna0 :: "fval \<Rightarrow> fval" where
  "fillna0 v = (if v = NaN then Fin 0 else v)"

text \<open>
  \<^verbatim>\<open>calculate_comparison\<close>, first loop: the two month columns of a metric are filled
  with 0.  Second loop: the change column and the growth column of a metric are added.
\<close>

definition fill_metric :: "string \<Rightarrow> mrow \<Rightarrow> mrow" where
  "fill_metric col r =
     r\<lparr>cur := (cur r)(col := fillna0 (cur r col)),
       prev := (prev r)(col := fillna0 (prev r col))\<rparr>"

definition compare_metric :: "string \<Rightarrow> mrow \<Rightarrow> mrow" where
  "compare_metric col r =
     r\<lparr>change := (change r)(col \<mapsto> fsub (cur r col) (prev r col)),
       growth := (growth r)(col \<mapsto> growth_lambda (cur r col) (prev r col))\<rparr>"

text \<open>
  \<^verbatim>\<open>data_analyzer.py\<close>, \<^verbatim>\<open>calculate_comparison\<close>.  Reading a month column of
  a metric that the merged frame does not have raises, and every exception gives the empty
  frame.  The final selection of the result columns keeps the key columns and the four
  columns of each metric; it is the identity on the fields read below.
\<close>

definition calculate_comparison :: "agg \<Rightarrow> agg \<Rightarrow> string list \<Rightarrow> string list \<Rightarrow> mrow list" where
  "calculate_comparison current_df previous_df group_by_cols metric_cols' =
     (case merge_outer current_df previous_df group_by_cols of
        Inl e \<Rightarrow> []
      | Inr mf \<Rightarrow>
          if \<not> set metric_cols' \<subseteq> set (m_cols mf) then []
          else
            let filled = fold (\<lambda>col. map (fill_metric col)) metric_cols' (m_rows mf)
            in fold (\<lambda>col. map (compare_metric col)) metric_cols' filled)"

text \<open>
  \<^verbatim>\<open>data_analyzer_v2.py\<close>, \<^verbatim>\<open>calculate_comparison\<close>: the same, over the
  metrics whose two month columns exist.
\<close>

definition calculate_comparison_v2 :: "agg \<Rightarrow> agg \<Rightarrow> string list \<Rightarrow> string list \<Rightarrow> mrow list" where
  "calculate_comparison_v2 current_df previous_df group_by_cols metric_cols' =
     (case merge_outer current_df previous_df group_by_cols of
        Inl e \<Rightarrow> []
      | Inr mf \<Rightarrow>
          let available_metrics = filter (\<lambda>col. col \<in> set (m_cols mf)) metric_cols';
              filled = fold (\<lambda>col. map (fill_metric col)) available_metrics (m_rows mf)
          in fold (\<lambda>col. map (compare_metric col)) available_metrics filled)"

text \<open>
  \<^verbatim>\<open>auto_monthly_analysis.py\<close>, \<^verbatim>\<open>merge_monthly_data\<close>: an outer merge on
  the dimension columns, or, without dimensions, the two frames side by side (row by row,
  by position, every column renamed with its month suffix, so that the merged frame has no
  key column); then every missing cell of the merged frame is filled with 0.
\<close>

fun concat_axis1 :: "(val list \<times> (string \<Rightarrow> real)) list \<Rightarrow> (val list \<times> (string \<Rightarrow> real)) list \<Rightarrow> mrow list" where
  "concat_axis1 [] [] = []"
| "concat_axis1 (c # cs) [] = joined [] (Some (snd c)) None # concat_axis1 cs []"
| "concat_axis1 [] (p # ps) = joined [] None (Some (snd p)) # concat_axis1 [] ps"
| "concat_axis1 (c # cs) (p # ps) = joined [] (Some (snd c)) (Some (snd p)) # concat_axis1 cs ps"

definition fillna_all :: "mrow \<Rightarrow> mrow" where
  "fillna_all r = r\<lparr>cur := (\<lambda>m. fillna0 (cur r m)), prev := (\<lambda>m. fillna0 (prev r m))\<rparr>"

definition merge_monthly_data :: "agg \<Rightarrow> agg \<Rightarrow> string list \<Rightarrow> error + merged" where
  "merge_monthly_data current_agg previous_agg dimension_cols =
     (case (if dimension_cols \<noteq> [] then merge_outer current_agg previous_agg dimension_cols
            else Inr \<lparr>m_on = [],
                      m_cols = filter (\<lambda>c. c \<in> set (metric_cols previous_agg)) (metric_cols current_agg),
                      m_rows = concat_axis1 (groups current_agg) (groups previous_agg)\<rparr>) of
        Inl e \<Rightarrow> Inl e
      | Inr mf \<Rightarrow> Inr (mf\<lparr>m_rows := map fillna_all (m_rows mf)\<rparr>))"

text \<open>
  \<^verbatim>\<open>auto_monthly_analysis.py\<close>, \<^verbatim>\<open>calculate_growth_rate\<close>: for each metric
  whose two month columns exist, the growth column is added.  No change column is computed.
\<close>

definition growth_metric :: "string \<Rightarrow> mrow \<Rightarrow> mrow" where
  "growth_metric metric r =
     r\<lparr>growth := (growth r)(metric \<mapsto> growth_rate_cell (cur r metric) (prev r metric))\<rparr>"

definition calculate_growth_rate :: "merged \<Rightarrow> string list \<Rightarrow> merged" where
  "calculate_growth_rate merged_df metric_cols' =
     merged_df\<lparr>m_rows :=
       fold (\<lambda>metric rs. if metric \<in> set (m_cols merged_df) then map (growth_metric metric) rs else rs)
         metric_cols' (m_rows merged_df)\<rparr>"

subsection \<open>The interval mode\<close>

text \<open>The name of the interval column that the binning adds (two CJK characters, in UTF-8).\<close>

definition interval_col :: string where
  "interval_col = [CHR 0xE5, CHR 0x8C, CHR 0xBA, CHR 0xE9, CHR 0x97, CHR 0xB4]"


text \<open>The labels between consecutive cutpoints, \<^verbatim>\<open>f"{cutpoints[i]}-{cutpoints[i+1]}"\<close>.\<close>

fun middle_labels :: "pandas \<Rightarrow> real list \<Rightarrow> string list" where
  "middle_labels L (a # b # cs) =
     (number_text L a @ ''-'' @ number_text L b) # middle_labels L (b # cs)"
| "middle_labels L cs = []"

text \<open>\<^verbatim>\<open>create_interval_labels\<close>; the two bounds of the data are not used.\<close>

definition create_interval_labels :: "pandas \<Rightarrow> real list \<Rightarrow> real \<Rightarrow> real \<Rightarrow> string list" where
  "create_interval_labels L cutpoints min_val max_val =
     (if 0 < length cutpoints then
        [''<='' @ number_text L (hd cutpoints)] @ middle_labels L cutpoints
          @ [''>'' @ number_text L (last cutpoints)]
      else [])"

text \<open>
  \<^verbatim>\<open>pd.cut(values, bins=[-inf] + cutpoints + [inf], labels=labels, include_lowest=True,
  right=False)\<close> on one cell: the bins are closed on the left and open on the right, so a
  number lies in the bin whose index is the count of the cutpoints that are not above it.
\<close>

definition bin_index :: "real list \<Rightarrow> real \<Rightarrow> nat" where
  "bin_index cutpoints x = length (filter (\<lambda>c. c \<le> x) cutpoints)"

fun cut_cell :: "real list \<Rightarrow> string list \<Rightarrow> val \<Rightarrow> val" where
  "cut_cell cutpoints labels (Num x) = Text (labels ! bin_index cutpoints x)"
| "cut_cell cutpoints labels v = Missing"

text \<open>
  \<^verbatim>\<open>apply_interval_binning\<close>: the metric column is coerced, then binned into the new
  interval column.  The library refuses bin edges that do not increase strictly, a number
  of labels other than the number of bins, and a label that occurs twice; the function has
  no exception handler.
\<close>

definition apply_interval_binning :: "pandas \<Rightarrow> frame \<Rightarrow> string \<Rightarrow> real list \<Rightarrow> string list \<Rightarrow> error + frame" where
  "apply_interval_binning L df metric_name cutpoints labels =
     (if metric_name \<notin> set (columns df) then Inl KeyError
      else if \<not> sorted_wrt (<) cutpoints then Inl ValueError
      else if length labels \<noteq> length cutpoints + 1 \<or> \<not> distinct labels then Inl ValueError
      else
        let df_copy = coerce_column L metric_name df
        in Inr (df_copy
            \<lparr>columns := (if interval_col \<in> set (columns df_copy) then columns df_copy
                         else columns df_copy @ [interval_col]),
             dtype := (dtype df_copy)(interval_col := ''category''),
             rows := map (\<lambda>r. r(interval_col := cut_cell cutpoints labels (r metric_name)))
                       (rows df_copy),
             categories := (categories df_copy)(interval_col \<mapsto> labels)\<rparr>))"

subsection \<open>Classifying the columns\<close>

fun starts_with :: "string \<Rightarrow> string \<Rightarrow> bool" where
  "starts_with [] s = True"
| "starts_with (p # ps) [] = False"
| "starts_with (p # ps) (c # cs) = (p = c \<and> starts_with ps cs)"

fun contains :: "string \<Rightarrow> string \<Rightarrow> bool" where
  "contains p [] = (p = [])"
| "contains p (c # cs) = (starts_with p (c # cs) \<or> contains p cs)"

definition non_null_values :: "frame \<Rightarrow> string \<Rightarrow> val list" where
  "non_null_values df col = filter (\<lambda>v. v \<noteq> Missing) (map (\<lambda>r. r col) (rows df))"

text \<open>
  \<^verbatim>\<open>analyze_columns\<close> (the same in both interactive tools): one step of the loop over
  the columns, on the two lists built so far.
\<close>

definition analyze_column :: "pandas \<Rightarrow> frame \<Rightarrow> string \<Rightarrow> string list \<times> string list \<Rightarrow> string list \<times> string list" where
  "analyze_column L df col acc =
     (let dimension_cols = fst acc; metric_cols' = snd acc;
          dt = dtype df col;
          non_null = non_null_values df col
      in if length non_null = 0 then acc
         else if dt \<in> set [''object'', ''string''] \<or> starts_with ''string'' dt
           then (dimension_cols @ [col], metric_cols')
         else if dt \<in> set [''int64'', ''int32'', ''float64'', ''float32'']
                 \<or> contains ''int'' dt \<or> contains ''float'' dt
           then (dimension_cols, metric_cols' @ [col])
         else if numeric_sample_ok L dt (take 10 non_null)
           then (dimension_cols, metric_cols' @ [col])
         else (dimension_cols @ [col], metric_cols'))"

definition analyze_columns :: "pandas \<Rightarrow> frame \<Rightarrow> string list \<times> string list" where
  "analyze_columns L df = fold (analyze_column L df) (columns df) ([], [])"

text \<open>
  \<^verbatim>\<open>auto_monthly_analysis.py\<close>, \<^verbatim>\<open>identify_column_types\<close>: a column whose
  lower-cased name is in the exclusion set is skipped; a column of another type than text or
  number is skipped too.
\<close>

definition identify_column :: "pandas \<Rightarrow> string set \<Rightarrow> frame \<Rightarrow> string \<Rightarrow> string list \<times> string list \<Rightarrow> string list \<times> string list" where
  "identify_column L exclude_set df col acc =
     (let dimension_cols = fst acc; metric_cols' = snd acc; dt = dtype df col
      in if str_lower L col \<in> exclude_set then acc
         else if dt \<in> set [''object'', ''category''] \<or> is_string_dtype L dt
           then (dimension_cols @ [col], metric_cols')
         else if is_numeric_dtype L dt then (dimension_cols, metric_cols' @ [col])
         else acc)"

definition identify_column_types :: "pandas \<Rightarrow> string set \<Rightarrow> frame \<Rightarrow> string list \<times> string list" where
  "identify_column_types L exclude_set df = fold (identify_column L exclude_set df) (columns df) ([], [])"

subsection \<open>The runs, from the loaded frames to the result\<close>

text \<open>The fields of the interactive analyzer object that a run assigns.\<close>

record analyzer =
  current_month_data :: "frame option"
  previous_month_data :: "frame option"
  dimension_columns :: "string list"
  metric_columns :: "string list"

text \<open>\<^verbatim>\<open>DataFrame.empty\<close>: no row, or no column.\<close>

definition agg_empty :: "agg \<Rightarrow> bool" where
  "agg_empty a = (groups a = [] \<or> (key_cols a = [] \<and> metric_cols a = []))"

text \<open>
  \<^verbatim>\<open>data_analyzer.py\<close>, \<^verbatim>\<open>run\<close>, steps 3 to 6.  The two arguments after the
  library are what loading the two files gave (\<open>None\<close> when a file could not be read);
  \<open>select\<close> is the user's answer to the dimension prompt.  The result is the analyzer
  object after the run and the comparison, if the run reached it.
\<close>

definition run :: "pandas \<Rightarrow> frame option \<Rightarrow> frame option \<Rightarrow> (string list \<Rightarrow> string list) \<Rightarrow> analyzer \<Rightarrow> analyzer \<times> mrow list option" where
  "run L loaded_current loaded_previous select self =
     (let self1 = self\<lparr>current_month_data := loaded_current, previous_month_data := loaded_previous\<rparr>
      in case (loaded_current, loaded_previous) of
           (Some current, Some previous) \<Rightarrow>
             (let classified = analyze_columns L current;
                  self2 = self1\<lparr>dimension_columns := fst classified, metric_columns := snd classified\<rparr>
              in if dimension_columns self2 = [] then (self2, None)
                 else if metric_columns self2 = [] then (self2, None)
                 else
                   let selected_dimensions = select (dimension_columns self2);
                       current_summary =
                         group_and_summarize L current selected_dimensions (metric_columns self2);
                       previous_summary =
                         group_and_summarize L previous selected_dimensions (metric_columns self2)
                   in if agg_empty current_summary \<or> agg_empty previous_summary then (self2, None)
                      else (self2, Some (calculate_comparison current_summary previous_summary
                                           selected_dimensions (metric_columns self2))))
         | _ \<Rightarrow> (self1, None))"

text \<open>The fields of the automatic analyzer object.\<close>

record auto_analyzer =
  exclude_set :: "string set"
  auto_dimension_columns :: "string list"
  auto_metric_columns :: "string list"

text \<open>
  \<^verbatim>\<open>auto_monthly_analysis.py\<close>, \<^verbatim>\<open>run_analysis\<close>, steps 2 to 5, on the two
  loaded frames; an exception of a step ends the run.
\<close>

definition run_analysis :: "pandas \<Rightarrow> frame \<Rightarrow> frame \<Rightarrow> auto_analyzer \<Rightarrow> auto_analyzer \<times> (error + merged)" where
  "run_analysis L current_df previous_df self =
     (let classified = identify_column_types L (exclude_set self) current_df;
          dimension_cols = fst classified; metric_cols' = snd classified;
          self1 = self\<lparr>auto_dimension_columns := dimension_cols, auto_metric_columns := metric_cols'\<rparr>
      in if metric_cols' = [] then (self1, Inl ValueError)
         else
           case aggregate_data L current_df dimension_cols metric_cols' of
             Inl e \<Rightarrow> (self1, Inl e)
           | Inr current_agg \<Rightarrow>
               (case aggregate_data L previous_df dimension_cols metric_cols' of
                  Inl e \<Rightarrow> (self1, Inl e)
                | Inr previous_agg \<Rightarrow>
                    (case merge_monthly_data current_agg previous_agg dimension_cols of
                       Inl e \<Rightarrow> (self1, Inl e)
                     | Inr merged_df \<Rightarrow> (self1, Inr (calculate_growth_rate merged_df metric_cols')))))"

subsection \<open>The two analyzer objects as constructed\<close>

definition new_analyzer :: analyzer where
  "new_analyzer =
     \<lparr>current_month_data = None, previous_month_data = None,
      dimension_columns = [], metric_columns = []\<rparr>"

text \<open>
  The column names that the automatic tool excludes by default (identifiers and dates; the
  names written in CJK characters are given in UTF-8), and its constructor: the exclusion
  set holds the lower-cased default and user-given names.
\<close>

definition default_exclude :: "string list" where
  "default_exclude =
     [[CHR 0xE5, CHR 0xAE, CHR 0xA2, CHR 0xE6, CHR 0x88, CHR 0xB7] @ ''ID'',
      [CHR 0xE5, CHR 0xAE, CHR 0xA2, CHR 0xE6, CHR 0x88, CHR 0xB7] @ ''id'',
      ''customer_id'',
      ''cust_id'',
      [CHR 0xE8, CHR 0xAE, CHR 0xA2, CHR 0xE5, CHR 0x8D, CHR 0x95, CHR 0xE5, CHR 0x8F, CHR 0xB7],
      [CHR 0xE8, CHR 0xAE, CHR 0xA2, CHR 0xE5, CHR 0x8D, CHR 0x95, CHR 0xE7, CHR 0xBC, CHR 0x96, CHR 0xE5, CHR 0x8F, CHR 0xB7],
      ''order_id'',
      ''order_no'',
      [CHR 0xE4, CHR 0xBA, CHR 0xA7, CHR 0xE5, CHR 0x93, CHR 0x81, CHR 0xE7, CHR 0xBC, CHR 0x96, CHR 0xE7, CHR 0xA0, CHR 0x81],
      [CHR 0xE4, CHR 0xBA, CHR 0xA7, CHR 0xE5, CHR 0x93, CHR 0x81] @ ''ID'',
      ''product_id'',
      ''prod_id'',
      [CHR 0xE6, CHR 0x97, CHR 0xA5, CHR 0xE6, CHR 0x9C, CHR 0x9F],
      [CHR 0xE6, CHR 0x97, CHR 0xB6, CHR 0xE9, CHR 0x97, CHR 0xB4],
      ''date'',
      ''time'',
      ''datetime'',
      ''ID'',
      ''id'',
      ''Id'',
      ''iD'']"

definition new_auto_analyzer :: "pandas \<Rightarrow> string list \<Rightarrow> auto_analyzer" where
  "new_auto_analyzer L exclude_columns =
     \<lparr>exclude_set = set (map (str_lower L) (default_exclude @ exclude_columns)),
      auto_dimension_columns = [], auto_metric_columns = []\<rparr>"

subsection \<open>Reading a result, and the frames of the scenarios\<close>

text \<open>A column of a list of merged rows, and the rows of a merge that may have failed.\<close>

definition column_key :: "mrow list \<Rightarrow> val list list" where
  "column_key rs = map mkey rs"

definition column_cur :: "string \<Rightarrow> mrow list \<Rightarrow> fval list" where
  "column_cur m rs = map (\<lambda>r. cur r m) rs"

definition column_prev :: "string \<Rightarrow> mrow list \<Rightarrow> fval list" where
  "column_prev m rs = map (\<lambda>r. prev r m) rs"

definition column_change :: "string \<Rightarrow> mrow list \<Rightarrow> fval option list" where
  "column_change m rs = map (\<lambda>r. change r m) rs"

definition column_growth :: "string \<Rightarrow> mrow list \<Rightarrow> fval option list" where
  "column_growth m rs = map (\<lambda>r. growth r m) rs"

definition rows_of :: "error + merged \<Rightarrow> mrow list" where
  "rows_of res = (case res of Inl e \<Rightarrow> [] | Inr mf \<Rightarrow> m_rows mf)"

text \<open>The group keys of an aggregate.\<close>

definition keys_of :: "agg \<Rightarrow> val list set" where
  "keys_of a = fst ` set (groups a)"

text \<open>A merged row after the two loops of \<^verbatim>\<open>calculate_comparison\<close>.\<close>

definition compared :: "string list \<Rightarrow> mrow \<Rightarrow> mrow" where
  "compared ms r = fold compare_metric ms (fold fill_metric ms r)"

text \<open>An aggregate of one key column and one metric, given by its keys and totals.\<close>

definition totals_agg :: "string \<Rightarrow> string \<Rightarrow> (string \<times> real) list \<Rightarrow> agg" where
  "totals_agg key_col metric kts =
     \<lparr>key_cols = [key_col], metric_cols = [metric],
      groups = map (\<lambda>(k, t). ([Text k], (\<lambda>m. t))) kts\<rparr>"

text \<open>
  Scenario 1 of the specification: the current month has East with sales 100, the prior
  month has East with 80 and West with 50.  Scenario 2: group G has the prior total 0 and
  the current total 40.  A third pair: the prior total 0 and the current total \<open>-5\<close>.
\<close>

definition scenario1_current :: agg where
  "scenario1_current = totals_agg ''region'' ''sales'' [(''East'', 100)]"

definition scenario1_previous :: agg where
  "scenario1_previous = totals_agg ''region'' ''sales'' [(''East'', 80), (''West'', 50)]"

definition scenario2_current :: agg where
  "scenario2_current = totals_agg ''group'' ''amount'' [(''G'', 40)]"

definition scenario2_previous :: agg where
  "scenario2_previous = totals_agg ''group'' ''amount'' [(''G'', 0)]"

definition refund_current :: agg where
  "refund_current = totals_agg ''group'' ''amount'' [(''G'', - 5)]"

text \<open>
  A library for the examples.  It parses no text as a number, prints the two cutpoints of
  scenario 3 without a fraction, lists the categories that no row has (the default of the
  library before its version 3), and lower-cases nothing.
\<close>

definition example_pandas :: pandas where
  "example_pandas =
     \<lparr>to_number = (\<lambda>s. None),
      number_text = (\<lambda>x. if x = 100 then ''100'' else if x = 500 then ''500'' else ''?''),
      observed_default = False,
      numeric_sample_ok = (\<lambda>dt vs. False),
      is_string_dtype = (\<lambda>dt. dt = ''string''),
      is_numeric_dtype = (\<lambda>dt. dt \<in> set [''int64'', ''float64'']),
      str_lower = (\<lambda>s. s)\<rparr>"

text \<open>A row given by its cells, and a frame of text and whole-number columns.\<close>

definition row_of :: "(string \<times> val) list \<Rightarrow> string \<Rightarrow> val" where
  "row_of cells c = (case map_of cells c of Some v \<Rightarrow> v | None \<Rightarrow> Missing)"

definition table :: "string list \<Rightarrow> string list \<Rightarrow> (string \<times> val) list list \<Rightarrow> frame" where
  "table text_cols number_cols rs =
     \<lparr>columns = text_cols @ number_cols,
      dtype = (\<lambda>c. if c \<in> set number_cols then ''int64'' else ''object''),
      rows = map row_of rs,
      categories = (\<lambda>c. None)\<rparr>"

text \<open>The two frames of scenario 1.\<close>

definition scenario1_current_frame :: frame where
  "scenario1_current_frame =
     table [''region''] [''sales''] [[(''region'', Text ''East''), (''sales'', Num 100)]]"

definition scenario1_previous_frame :: frame where
  "scenario1_previous_frame =
     table [''region''] [''sales'']
       [[(''region'', Text ''East''), (''sales'', Num 80)],
        [(''region'', Text ''West''), (''sales'', Num 50)]]"


text \<open>A row after the listed columns have been coerced to numbers.\<close>

definition coerce_row :: "pandas \<Rightarrow> string list \<Rightarrow> (string \<Rightarrow> val) \<Rightarrow> string \<Rightarrow> val" where
  "coerce_row L cs r = (\<lambda>c. if c \<in> set cs then to_numeric_coerce L (r c) else r c)"

text \<open>A column of a frame that a step returned, and the keys and totals of an aggregate.\<close>

definition frame_column :: "string \<Rightarrow> error + frame \<Rightarrow> val list" where
  "frame_column c res = (case res of Inl e \<Rightarrow> [] | Inr df \<Rightarrow> map (\<lambda>r. r c) (rows df))"

definition agg_keys :: "agg \<Rightarrow> val list list" where
  "agg_keys a = map fst (groups a)"

definition agg_totals :: "string \<Rightarrow> agg \<Rightarrow> real list" where
  "agg_totals m a = map (\<lambda>g. snd g m) (groups a)"

text \<open>
  Scenario 3 of the specification: the cutpoints 100 and 500 over the metric
  \<^verbatim>\<open>loan_amount\<close>, on a frame with one loan of 100 and one of 500.
\<close>

definition scenario3_frame :: frame where
  "scenario3_frame =
     table [] [''loan_amount'', ''balance'']
       [[(''loan_amount'', Num 100), (''balance'', Num 10)],
        [(''loan_amount'', Num 500), (''balance'', Num 20)]]"

definition scenario3_labels :: "string list" where
  "scenario3_labels = create_interval_labels example_pandas [100, 500] 100 500"

definition scenario3_binned :: "error + frame" where
  "scenario3_binned =
     apply_interval_binning example_pandas scenario3_frame ''loan_amount'' [100, 500] scenario3_labels"

text \<open>A frame without the rows that have a missing value in one of the given columns.\<close>

definition drop_incomplete :: "frame \<Rightarrow> string list \<Rightarrow> frame" where
  "drop_incomplete df by = df\<lparr>rows := filter (\<lambda>r. list_all (\<lambda>c. r c \<noteq> Missing) by) (rows df)\<rparr>"

text \<open>A frame without the rows whose cell in the given column is not read as a number.\<close>

definition drop_non_numeric :: "pandas \<Rightarrow> frame \<Rightarrow> string \<Rightarrow> frame" where
  "drop_non_numeric L df c =
     df\<lparr>rows := filter (\<lambda>r. to_numeric_coerce L (r c) \<noteq> Missing) (rows df)\<rparr>"

text \<open>
  A frame with a row whose region is missing, and a frame with a loan amount that is not a
  number (the example library parses no text).
\<close>

definition missing_region_frame :: frame where
  "missing_region_frame =
     table [''region''] [''sales'']
       [[(''region'', Text ''East''), (''sales'', Num 100)],
        [(''region'', Missing), (''sales'', Num 7)],
        [(''region'', Text ''West''), (''sales'', Num 50)],
        [(''region'', Text ''East''), (''sales'', Num 5)]]"

definition unparsed_loan_frame :: frame where
  "unparsed_loan_frame =
     table [''loan_amount''] [''balance'']
       [[(''loan_amount'', Num 50), (''balance'', Num 10)],
        [(''loan_amount'', Text ''n/a''), (''balance'', Num 7)],
        [(''loan_amount'', Num 700), (''balance'', Num 20)]]"

section \<open>Properties\<close>

subsection \<open>The loops over the metrics, row by row\<close>

lemma fold_map_rows: "fold (\<lambda>col. map (f col)) ms rs = map (fold f ms) rs"
  by (induction ms arbitrary: rs) simp_all

lemma fold_map_rows_if:
  "fold (\<lambda>col rs. if P col then map (f col) rs else rs) ms rs
     = map (fold (\<lambda>col r. if P col then f col r else r) ms) rs"
  by (induction ms arbitrary: rs) simp_all

lemma fillna0_idem: "fillna0 (fillna0 v) = fillna0 v"
  by (simp add: fillna0_def)

lemma fold_fill_metric:
  "mkey (fold fill_metric ms r) = mkey r"
  "cur (fold fill_metric ms r) m = (if m \<in> set ms then fillna0 (cur r m) else cur r m)"
  "prev (fold fill_metric ms r) m = (if m \<in> set ms then fillna0 (prev r m) else prev r m)"
  "change (fold fill_metric ms r) = change r"
  "growth (fold fill_metric ms r) = growth r"
  by (induction ms arbitrary: r) (simp_all add: fill_metric_def fillna0_idem)

lemma fold_compare_metric:
  "mkey (fold compare_metric ms r) = mkey r"
  "cur (fold compare_metric ms r) = cur r"
  "prev (fold compare_metric ms r) = prev r"
  "change (fold compare_metric ms r) m =
     (if m \<in> set ms then Some (fsub (cur r m) (prev r m)) else change r m)"
  "growth (fold compare_metric ms r) m =
     (if m \<in> set ms then Some (growth_lambda (cur r m) (prev r m)) else growth r m)"
  by (induction ms arbitrary: r) (simp_all add: compare_metric_def)

lemma fold_growth_metric:
  "mkey (fold (\<lambda>col r. if P col then growth_metric col r else r) ms r) = mkey r"
  "cur (fold (\<lambda>col r. if P col then growth_metric col r else r) ms r) = cur r"
  "prev (fold (\<lambda>col r. if P col then growth_metric col r else r) ms r) = prev r"
  "change (fold (\<lambda>col r. if P col then growth_metric col r else r) ms r) = change r"
  "growth (fold (\<lambda>col r. if P col then growth_metric col r else r) ms r) m =
     (if m \<in> set ms \<and> P m then Some (growth_rate_cell (cur r m) (prev r m)) else growth r m)"
  by (induction ms arbitrary: r) (simp_all add: growth_metric_def)

lemma compared_fields:
  "mkey (compared ms r) = mkey r"
  "m \<in> set ms \<Longrightarrow> cur (compared ms r) m = fillna0 (cur r m)"
  "m \<in> set ms \<Longrightarrow> prev (compared ms r) m = fillna0 (prev r m)"
  "m \<in> set ms \<Longrightarrow>
     change (compared ms r) m = Some (fsub (fillna0 (cur r m)) (fillna0 (prev r m)))"
  "m \<in> set ms \<Longrightarrow>
     growth (compared ms r) m = Some (growth_lambda (fillna0 (cur r m)) (fillna0 (prev r m)))"
  by (simp_all add: compared_def fold_compare_metric fold_fill_metric)

text \<open>The comparison of the two tools as a map over the rows of the merge.\<close>

lemma calculate_comparison_rows:
  "calculate_comparison c p on ms =
     (if key_cols c = on \<and> key_cols p = on
         \<and> set ms \<subseteq> set (metric_cols c) \<inter> set (metric_cols p)
      then map (compared ms) (left_rows c p @ right_only_rows c p) else [])"
  by (auto simp: calculate_comparison_def merge_outer_def fold_map_rows compared_def Let_def)

lemma calculate_comparison_v2_rows:
  "calculate_comparison_v2 c p on ms =
     (if key_cols c = on \<and> key_cols p = on
      then map (compared (filter (\<lambda>col. col \<in> set (metric_cols c) \<and> col \<in> set (metric_cols p)) ms))
             (left_rows c p @ right_only_rows c p) else [])"
  by (auto simp: calculate_comparison_v2_def merge_outer_def fold_map_rows compared_def Let_def
      conj_commute)

lemma comparison_row:
  assumes "r \<in> set (calculate_comparison c p on ms)" "m \<in> set ms"
  shows "change r m = Some (fsub (cur r m) (prev r m))"
    and "growth r m = Some (growth_lambda (cur r m) (prev r m))"
    and "cur r m \<noteq> NaN" and "prev r m \<noteq> NaN"
  using assms
  by (auto simp: calculate_comparison_rows compared_fields fillna0_def split: if_splits)

lemma comparison_v2_row:
  assumes "r \<in> set (calculate_comparison_v2 c p on ms)"
    and "m \<in> set ms" "m \<in> set (metric_cols c)" "m \<in> set (metric_cols p)"
  shows "change r m = Some (fsub (cur r m) (prev r m))"
    and "growth r m = Some (growth_lambda (cur r m) (prev r m))"
    and "cur r m \<noteq> NaN" and "prev r m \<noteq> NaN"
  using assms
  by (auto simp: calculate_comparison_v2_rows compared_fields fillna0_def split: if_splits)

lemma growth_rate_row:
  assumes "r \<in> set (m_rows (calculate_growth_rate mf ms))" "m \<in> set ms" "m \<in> set (m_cols mf)"
  shows "growth r m = Some (growth_rate_cell (cur r m) (prev r m))"
  using assms
  by (auto simp: calculate_growth_rate_def fold_map_rows_if fold_growth_metric)

subsection \<open>Where the rows of a merge come from\<close>

lemma left_rows_cases:
  assumes "r \<in> set (left_rows a b)"
  shows "\<exists>k t. (k, t) \<in> set (groups a) \<and>
           ((k \<notin> fst ` set (groups b) \<and> r = joined k (Some t) None)
            \<or> (\<exists>u. (k, u) \<in> set (groups b) \<and> r = joined k (Some t) (Some u)))"
proof -
  from assms obtain k t where kt: "(k, t) \<in> set (groups a)"
    and r: "r \<in> set (case filter (\<lambda>g. fst g = k) (groups b) of
                       [] \<Rightarrow> [joined k (Some t) None]
                     | gs \<Rightarrow> map (\<lambda>g. joined k (Some t) (Some (snd g))) gs)"
    by (auto simp: left_rows_def)
  show ?thesis
  proof (cases "filter (\<lambda>g. fst g = k) (groups b)")
    case Nil
    then have "k \<notin> fst ` set (groups b)"
      by (auto simp: filter_empty_conv)
    with r Nil kt show ?thesis by auto
  next
    case (Cons g gs)
    with r have "r \<in> (\<lambda>g. joined k (Some t) (Some (snd g))) ` set (filter (\<lambda>g. fst g = k) (groups b))"
      by simp
    then obtain g' where g': "g' \<in> set (filter (\<lambda>g. fst g = k) (groups b))"
      and rg: "r = joined k (Some t) (Some (snd g'))"
      by blast
    from g' have "(k, snd g') \<in> set (groups b)" by auto
    with kt rg show ?thesis by blast
  qed
qed

lemma right_only_rows_cases:
  assumes "r \<in> set (right_only_rows a b)"
  shows "\<exists>k u. (k, u) \<in> set (groups b) \<and> k \<notin> fst ` set (groups a) \<and> r = joined k None (Some u)"
proof -
  from assms obtain g where g: "g \<in> set (groups b)" "fst g \<notin> fst ` set (groups a)"
    and r: "r = (case g of (k, u) \<Rightarrow> joined k None (Some u))"
    by (auto simp: right_only_rows_def)
  obtain k u where "g = (k, u)" by (cases g)
  with g r show ?thesis by auto
qed

lemma concat_axis1_cases:
  "r \<in> set (concat_axis1 cs ps) \<Longrightarrow> \<exists>c p. r = joined [] c p"
  by (induction cs ps rule: concat_axis1.induct) auto

lemma merged_row_change:
  assumes "merge_monthly_data a b dims = Inr mf" "r \<in> set (m_rows mf)"
  shows "change r = (\<lambda>m. None)"
proof -
  from assms obtain r0 where r: "r = fillna_all r0"
    and r0: "r0 \<in> set (left_rows a b @ right_only_rows a b)
             \<or> r0 \<in> set (concat_axis1 (groups a) (groups b))"
    by (auto simp: merge_monthly_data_def merge_outer_def split: if_splits)
  from r0 have "\<exists>k c p. r0 = joined k c p"
    using left_rows_cases [of r0 a b] right_only_rows_cases [of r0 a b]
      concat_axis1_cases [of r0 "groups a" "groups b"]
    by (elim disjE UnE; simp only: set_append Un_iff) blast+
  with r show ?thesis by (auto simp: fillna_all_def joined_def)
qed

lemma merge_monthly_change:
  assumes "merge_monthly_data a b dims = Inr mf" "r \<in> set (m_rows (calculate_growth_rate mf ms))"
  shows "change r m = None"
proof -
  from assms(2) obtain r0 where "r0 \<in> set (m_rows mf)"
    and "change r = change r0"
    by (auto simp: calculate_growth_rate_def fold_map_rows_if fold_growth_metric)
  with merged_row_change [OF assms(1)] show ?thesis by simp
qed

subsection \<open>The growth rate of one cell pair\<close>

lemma growth_lambda_zero_prior:
  "growth_lambda (Fin C) (Fin 0) = (if 0 < C then Fin 100 else Fin 0)"
  by (simp add: growth_lambda_def)


lemma growth_rate_cell_zero_prior:
  "growth_rate_cell (Fin C) (Fin 0) = (if C = 0 then Fin 0 else PInf)"
  by (simp add: growth_rate_cell_def masked_divide_def)


text \<open>Unfolding the scenarios and the merge on concrete frames.\<close>

lemmas scenario_defs =
  scenario1_current_def scenario1_previous_def scenario2_current_def scenario2_previous_def
  refund_current_def totals_agg_def

lemmas merge_defs =
  calculate_comparison_def calculate_comparison_v2_def merge_monthly_data_def
  calculate_growth_rate_def merge_outer_def left_rows_def right_only_rows_def joined_def
  side_def fill_metric_def compare_metric_def growth_metric_def fillna_all_def fillna0_def
  rows_of_def column_key_def column_cur_def column_prev_def column_change_def column_growth_def

lemmas frame_defs =
  scenario1_current_frame_def scenario1_previous_frame_def table_def row_of_def example_pandas_def

lemma scenario3_labels_eval: "scenario3_labels = [''<=100'', ''100-500'', ''>500'']"
  by (simp add: scenario3_labels_def create_interval_labels_def example_pandas_def)

lemma interval_col_fresh:
  "interval_col \<noteq> ''loan_amount''" "interval_col \<noteq> ''balance''"
  "''loan_amount'' \<noteq> interval_col" "''balance'' \<noteq> interval_col"
  by (simp_all add: interval_col_def)

lemmas binning_defs =
  scenario3_binned_def scenario3_labels_eval apply_interval_binning_def Let_def
  scenario3_frame_def table_def coerce_column_def frame_column_def row_of_def bin_index_def
  interval_col_fresh

subsection \<open>The keys of an outer merge\<close>
















subsection \<open>Coercion and group-by\<close>

lemma to_numeric_coerce_idem:
  "to_numeric_coerce L (to_numeric_coerce L v) = to_numeric_coerce L v"
  by (cases v) (auto split: option.splits)

lemma to_numeric_coerce_missing:
  "to_numeric_coerce L v \<noteq> Missing \<Longrightarrow> v \<noteq> Missing"
  by (cases v) auto

lemma to_numeric_coerce_not_text: "\<not> is_text (to_numeric_coerce L v)"
  by (cases v) (auto split: option.splits)

lemma coerce_column_fields:
  "columns (coerce_column L c df) = columns df"
  "categories (coerce_column L c df) = categories df"
  "rows (coerce_column L c df) = map (\<lambda>r. r(c := to_numeric_coerce L (r c))) (rows df)"
  by (simp_all add: coerce_column_def)

lemma fold_coerce_columns: "columns (fold (coerce_column L) cs df) = columns df"
  by (induction cs arbitrary: df) (simp_all add: coerce_column_fields)

lemma fold_coerce_categories: "categories (fold (coerce_column L) cs df) = categories df"
  by (induction cs arbitrary: df) (simp_all add: coerce_column_fields)

lemma fold_coerce_rows: "rows (fold (coerce_column L) cs df) = map (coerce_row L cs) (rows df)"
proof (induction cs arbitrary: df)
  case Nil
  have "coerce_row L [] = (\<lambda>r. r)" by (rule ext) (simp add: coerce_row_def)
  then show ?case by simp
next
  case (Cons c cs)
  have "coerce_row L cs (r(c := to_numeric_coerce L (r c))) = coerce_row L (c # cs) r" for r
    by (rule ext) (simp add: coerce_row_def to_numeric_coerce_idem)
  then show ?case by (simp add: Cons.IH coerce_column_fields)
qed

lemmas fold_coerce_column = fold_coerce_columns fold_coerce_categories fold_coerce_rows

lemma filter_map_filter:
  "(\<And>x. Q (f x) \<Longrightarrow> P x) \<Longrightarrow> filter Q (map f (filter P xs)) = filter Q (map f xs)"
  by (induction xs) auto

lemma groupby_sum_cong:
  assumes "columns df1 = columns df2" "categories df1 = categories df2"
    and "complete_rows df1 by = complete_rows df2 by"
  shows "groupby_sum observed df1 by ms = groupby_sum observed df2 by ms"
proof -
  have o: "observed_keys df1 by = observed_keys df2 by"
    by (simp add: observed_keys_def assms)
  have u: "unobserved_keys df1 by = unobserved_keys df2 by"
    using o by (auto simp: unobserved_keys_def assms split: list.splits option.splits)
  have t: "group_total df1 by k = group_total df2 by k" for k
    by (rule ext) (simp add: group_total_def assms)
  show ?thesis
    by (simp add: groupby_sum_def group_keys_def assms o u t)
qed

lemma groupby_sum_keys:
  "groupby_sum observed df by ms = Inr a \<Longrightarrow>
     groups a = map (\<lambda>k. (k, group_total df by k)) (group_keys observed df by)"
  by (auto simp: groupby_sum_def split: if_splits)

lemma observed_keys_iff:
  "k \<in> set (observed_keys df by)
     \<longleftrightarrow> (\<exists>r\<in>set (rows df). list_all (\<lambda>c. r c \<noteq> Missing) by \<and> key_of by r = k)"
  by (auto simp: observed_keys_def complete_rows_def)

lemma observed_key_no_missing:
  "k \<in> set (observed_keys df by) \<Longrightarrow> Missing \<notin> set k"
  by (force simp: observed_keys_iff key_of_def list_all_iff)

lemma unobserved_keys_cases:
  assumes "k \<in> set (unobserved_keys df by)"
  shows "\<exists>c labels l. by = [c] \<and> categories df c = Some labels \<and> l \<in> set labels \<and> k = [Text l]"
    and "k \<notin> set (observed_keys df by)"
proof -
  from assms obtain c where c: "by = [c]"
    by (cases "by"; cases "tl by") (auto simp: unobserved_keys_def)
  with assms obtain labels where l: "categories df c = Some labels"
    by (cases "categories df c") (auto simp: unobserved_keys_def)
  from assms c l have "k \<in> set (filter (\<lambda>k. k \<notin> set (observed_keys df by)) (map (\<lambda>l. [Text l]) labels))"
    by (simp add: unobserved_keys_def)
  then have "k \<notin> set (observed_keys df by)" and "\<exists>l\<in>set labels. k = [Text l]" by auto
  with c l show "\<exists>c labels l. by = [c] \<and> categories df c = Some labels \<and> l \<in> set labels \<and> k = [Text l]"
    and "k \<notin> set (observed_keys df by)" by auto
qed

lemma group_total_unobserved:
  assumes "k \<notin> set (observed_keys df by)"
  shows "group_total df by k m = 0"
proof -
  from assms have "filter (\<lambda>r. key_of by r = k) (complete_rows df by) = []"
    by (auto simp: observed_keys_def filter_empty_conv)
  then show ?thesis by (simp add: group_total_def)
qed

lemma group_keys_no_missing:
  "k \<in> set (group_keys observed df by) \<Longrightarrow> Missing \<notin> set k"
  using observed_key_no_missing [of k df "by"] unobserved_keys_cases(1) [of k df "by"]
  by (auto simp: group_keys_def split: if_splits)

lemma key_of_coerce_row:
  "set by \<inter> set cs = {} \<Longrightarrow> key_of by (coerce_row L cs r) = key_of by r"
  by (auto simp: key_of_def coerce_row_def)

text \<open>Unfolding a group-by on a concrete frame; the binned frame of scenario 3.\<close>

lemmas groupby_defs =
  group_and_summarize_def group_and_summarize_v2_def aggregate_data_def groupby_sum_def
  group_keys_def observed_keys_def unobserved_keys_def complete_rows_def key_of_def
  group_total_def column_total_def coerce_column_def empty_agg_def agg_keys_def agg_totals_def
  keys_of_def Let_def

lemma scenario3_binned_eval:
  "scenario3_binned = Inr
     \<lparr>columns = [''loan_amount'', ''balance'', interval_col],
      dtype = (\<lambda>c. if c = interval_col then ''category'' else if c = ''loan_amount'' then ''float64''
                   else if c = ''balance'' then ''int64'' else ''object''),
      rows = [row_of [(interval_col, Text ''100-500''), (''loan_amount'', Num 100), (''balance'', Num 10)],
              row_of [(interval_col, Text ''>500''), (''loan_amount'', Num 500), (''balance'', Num 20)]],
      categories = [interval_col \<mapsto> [''<=100'', ''100-500'', ''>500'']]\<rparr>"
  by (auto simp: binning_defs fun_eq_iff)

lemmas ex_defs =
  missing_region_frame_def unparsed_loan_frame_def table_def row_of_def example_pandas_def

text \<open>Dropping rows that a group-by would drop anyway changes nothing.\<close>

lemma drop_incomplete_fields:
  "columns (drop_incomplete df bys) = columns df"
  "categories (drop_incomplete df bys) = categories df"
  "rows (drop_incomplete df bys) = filter (\<lambda>r. list_all (\<lambda>c. r c \<noteq> Missing) bys) (rows df)"
  by (simp_all add: drop_incomplete_def)

lemma drop_incomplete_no_key: "drop_incomplete df [] = df"
  by (simp add: drop_incomplete_def)

lemma complete_rows_drop:
  "complete_rows (drop_incomplete df bys) bys = complete_rows df bys"
  by (simp add: complete_rows_def drop_incomplete_fields)

lemma complete_coerced:
  "list_all (\<lambda>c. coerce_row L cs r c \<noteq> Missing) bys \<Longrightarrow> list_all (\<lambda>c. r c \<noteq> Missing) bys"
  by (auto simp: list_all_iff coerce_row_def dest: to_numeric_coerce_missing split: if_splits)

lemma complete_rows_coerced_drop:
  "complete_rows (fold (coerce_column L) cs (drop_incomplete df bys)) bys
     = complete_rows (fold (coerce_column L) cs df) bys"
  unfolding complete_rows_def fold_coerce_rows drop_incomplete_fields
  by (rule filter_map_filter) (rule complete_coerced)

lemma group_and_summarize_drop:
  "group_and_summarize L (drop_incomplete df bys) bys ms = group_and_summarize L df bys ms"
proof -
  have "groupby_sum (observed_default L) (fold (coerce_column L) ms (drop_incomplete df bys)) bys ms
          = groupby_sum (observed_default L) (fold (coerce_column L) ms df) bys ms"
    by (rule groupby_sum_cong)
      (simp_all add: fold_coerce_columns fold_coerce_categories drop_incomplete_fields
        complete_rows_coerced_drop)
  then show ?thesis
    by (simp add: group_and_summarize_def drop_incomplete_fields)
qed

lemma aggregate_data_drop:
  "aggregate_data L (drop_incomplete df bys) bys ms = aggregate_data L df bys ms"
proof (cases "bys = []")
  case True
  then show ?thesis by (simp add: drop_incomplete_no_key)
next
  case False
  have "groupby_sum (observed_default L) (drop_incomplete df bys) bys ms
          = groupby_sum (observed_default L) df bys ms"
    by (rule groupby_sum_cong) (simp_all add: drop_incomplete_fields complete_rows_drop)
  with False show ?thesis by (simp add: aggregate_data_def)
qed

lemma groupby_sum_no_missing:
  assumes "groupby_sum observed df bys ms = Inr a" "k \<in> keys_of a"
  shows "Missing \<notin> set k"
  using assms groupby_sum_keys [OF assms(1)] group_keys_no_missing [of k observed df bys]
  by (auto simp: keys_of_def)

lemma group_and_summarize_no_missing:
  assumes "k \<in> keys_of (group_and_summarize L df bys ms)"
  shows "Missing \<notin> set k"
proof -
  from assms obtain a where "groupby_sum (observed_default L) (fold (coerce_column L) ms df) bys ms = Inr a"
    and "k \<in> keys_of a"
    by (auto simp: group_and_summarize_def keys_of_def empty_agg_def Let_def
        split: if_splits sum.splits)
  then show ?thesis by (rule groupby_sum_no_missing)
qed

lemma aggregate_data_no_missing:
  assumes "aggregate_data L df bys ms = Inr a" "k \<in> keys_of a"
  shows "Missing \<notin> set k"
proof (cases "bys = [] \<or> ms = []")
  case True
  with assms show ?thesis
    by (auto simp: aggregate_data_def keys_of_def empty_agg_def split: if_splits)
next
  case False
  with assms(1) have "groupby_sum (observed_default L) df bys ms = Inr a"
    by (simp add: aggregate_data_def)
  from this assms(2) show ?thesis by (rule groupby_sum_no_missing)
qed

lemma cut_cell_missing: "cut_cell cs ls v \<noteq> Missing \<Longrightarrow> v \<noteq> Missing"
  by (cases v) auto

lemma binning_drop:
  assumes nin: "interval_col \<notin> set ms"
    and b: "apply_interval_binning L df metric_name cutpoints labels = Inr binned"
  shows "\<exists>binned'. apply_interval_binning L (drop_non_numeric L df metric_name) metric_name cutpoints labels
             = Inr binned'
           \<and> group_and_summarize_v2 L binned' [interval_col] ms
             = group_and_summarize_v2 L binned [interval_col] ms"
proof -
  let ?P = "\<lambda>r. to_numeric_coerce L (r metric_name) \<noteq> Missing"
  let ?bin = "\<lambda>r. (r(metric_name := to_numeric_coerce L (r metric_name)))
                    (interval_col := cut_cell cutpoints labels (to_numeric_coerce L (r metric_name)))"
  let ?df' = "drop_non_numeric L df metric_name"
  from b have ok: "metric_name \<in> set (columns df)" "sorted_wrt (<) cutpoints"
    "length labels = length cutpoints + 1" "distinct labels"
    by (auto simp: apply_interval_binning_def split: if_splits)
  from b ok have binned: "columns binned = (if interval_col \<in> set (columns df) then columns df
                                              else columns df @ [interval_col])"
      "categories binned = (categories df)(interval_col \<mapsto> labels)"
      "rows binned = map ?bin (rows df)"
    by (auto simp: apply_interval_binning_def Let_def coerce_column_def)
  define binned' where "binned' = projr (apply_interval_binning L ?df' metric_name cutpoints labels)"
  from ok have b': "apply_interval_binning L ?df' metric_name cutpoints labels = Inr binned'"
    by (simp add: binned'_def apply_interval_binning_def drop_non_numeric_def Let_def)
  from b' ok have binned': "columns binned' = columns binned"
      "categories binned' = categories binned"
      "rows binned' = map ?bin (filter ?P (rows df))"
    by (auto simp: apply_interval_binning_def Let_def coerce_column_def drop_non_numeric_def binned)
  let ?cs = "filter (\<lambda>col. col \<in> set (columns binned)) ms"
  from nin have nin': "interval_col \<notin> set ?cs" by simp
  have key: "?P r" if "list_all (\<lambda>c. coerce_row L ?cs (?bin r) c \<noteq> Missing) [interval_col]" for r
    using that nin' by (auto simp: coerce_row_def dest: cut_cell_missing)
  have "complete_rows (fold (coerce_column L) ?cs binned') [interval_col]
          = complete_rows (fold (coerce_column L) ?cs binned) [interval_col]"
    unfolding complete_rows_def fold_coerce_rows binned(3) binned'(3) map_map
    by (rule filter_map_filter) (use key in simp)
  then have "groupby_sum (observed_default L) (fold (coerce_column L) ?cs binned') [interval_col] ?cs
               = groupby_sum (observed_default L) (fold (coerce_column L) ?cs binned) [interval_col] ?cs"
    by (intro groupby_sum_cong) (simp_all add: fold_coerce_columns fold_coerce_categories binned')
  then have "group_and_summarize_v2 L binned' [interval_col] ms
               = group_and_summarize_v2 L binned [interval_col] ms"
    by (simp add: group_and_summarize_v2_def Let_def fold_coerce_columns binned')
  with b' show ?thesis by blast
qed

subsection \<open>Prior total zero, current total positive\<close>

text \<open>
  Claim C1, as the code has it.  The two tools differ.  In the interactive tool
  (\<^verbatim>\<open>calculate_comparison\<close>) a row whose prior total of a metric is 0 and whose
  current total \<open>C\<close> is positive gets the finite growth rate 100.0 and the change \<open>C\<close>.
  In the automatic tool (\<^verbatim>\<open>calculate_growth_rate\<close> after
  \<^verbatim>\<open>merge_monthly_data\<close>) such a row gets the growth rate plus infinity, and no
  change column exists.
\<close>

theorem zero_prior_positive_current:
  "(r \<in> set (calculate_comparison current_df previous_df group_by_cols ms) \<and> m \<in> set ms
      \<and> prev r m = Fin 0 \<and> cur r m = Fin C \<and> 0 < C
     \<longrightarrow> growth r m = Some (Fin 100) \<and> change r m = Some (Fin C))
   \<and> (merge_monthly_data current_agg previous_agg dimension_cols = Inr merged_df
      \<and> r' \<in> set (m_rows (calculate_growth_rate merged_df ms')) \<and> m' \<in> set ms'
      \<and> m' \<in> set (m_cols merged_df) \<and> prev r' m' = Fin 0 \<and> cur r' m' = Fin C' \<and> 0 < C'
     \<longrightarrow> growth r' m' = Some PInf \<and> change r' m' = None)"
proof (intro conjI impI)
  assume a: "r \<in> set (calculate_comparison current_df previous_df group_by_cols ms) \<and> m \<in> set ms
      \<and> prev r m = Fin 0 \<and> cur r m = Fin C \<and> 0 < C"
  then show "growth r m = Some (Fin 100)"
    using comparison_row(2) [of r current_df previous_df group_by_cols ms m]
    by (simp add: growth_lambda_zero_prior)
  from a show "change r m = Some (Fin C)"
    using comparison_row(1) [of r current_df previous_df group_by_cols ms m]
    by (simp add: fsub_def)
next
  assume a: "merge_monthly_data current_agg previous_agg dimension_cols = Inr merged_df
      \<and> r' \<in> set (m_rows (calculate_growth_rate merged_df ms')) \<and> m' \<in> set ms'
      \<and> m' \<in> set (m_cols merged_df) \<and> prev r' m' = Fin 0 \<and> cur r' m' = Fin C' \<and> 0 < C'"
  then show "growth r' m' = Some PInf"
    using growth_rate_row [of r' merged_df ms' m']
    by (simp add: growth_rate_cell_zero_prior)
  from a show "change r' m' = None"
    using merge_monthly_change [of current_agg previous_agg dimension_cols merged_df r' ms' m']
    by simp
qed

theorem zero_prior_positive_current_witness:
  "growth (hd (calculate_comparison scenario2_current scenario2_previous [''group''] [''amount''])) ''amount''
     = Some (Fin 100)
   \<and> change (hd (calculate_comparison scenario2_current scenario2_previous [''group''] [''amount''])) ''amount''
     = Some (Fin 40)
   \<and> growth (hd (m_rows (calculate_growth_rate
        (projr (merge_monthly_data scenario2_current scenario2_previous [''group''])) [''amount'']))) ''amount''
     = Some PInf
   \<and> change (hd (m_rows (calculate_growth_rate
        (projr (merge_monthly_data scenario2_current scenario2_previous [''group''])) [''amount'']))) ''amount''
     = None"
  using zero_prior_positive_current [where
      r = "hd (calculate_comparison scenario2_current scenario2_previous [''group''] [''amount''])"
      and current_df = scenario2_current and previous_df = scenario2_previous
      and group_by_cols = "[''group'']" and ms = "[''amount'']" and m = "''amount''" and C = 40
      and current_agg = scenario2_current and previous_agg = scenario2_previous
      and dimension_cols = "[''group'']"
      and merged_df = "projr (merge_monthly_data scenario2_current scenario2_previous [''group''])"
      and r' = "hd (m_rows (calculate_growth_rate
        (projr (merge_monthly_data scenario2_current scenario2_previous [''group''])) [''amount'']))"
      and ms' = "[''amount'']" and m' = "''amount''" and C' = 40]
  by (simp add: scenario_defs merge_defs)

text \<open>
  The claim as stated (always the infinity marker, never a finite percentage) fails in the
  interactive tool: in scenario 2 (prior 0, current 40) the growth rate is 100.0.
\<close>

theorem zero_prior_positive_current_counterexample:
  "column_prev ''amount'' (calculate_comparison scenario2_current scenario2_previous [''group''] [''amount''])
     = [Fin 0]
   \<and> column_cur ''amount'' (calculate_comparison scenario2_current scenario2_previous [''group''] [''amount''])
     = [Fin 40]
   \<and> column_growth ''amount'' (calculate_comparison scenario2_current scenario2_previous [''group''] [''amount''])
     = [Some (Fin 100)]
   \<and> column_growth ''amount'' (calculate_comparison scenario2_current scenario2_previous [''group''] [''amount''])
     \<noteq> [Some PInf]"
  by (simp add: scenario_defs merge_defs growth_lambda_def)

subsection \<open>Prior total zero, current total zero or negative\<close>

text \<open>
  Claim C2, as the code has it.  With the prior total 0 and the current total 0 the growth
  rate is exactly 0 in both tools.  With the prior total 0 and a negative current total the
  interval tool (\<^verbatim>\<open>data_analyzer_v2.py\<close>, \<^verbatim>\<open>calculate_comparison\<close>) returns
  0.0 as well.  Nothing is stated here about a negative current total in the automatic tool.
\<close>

theorem zero_prior_nonpositive_current:
  "(r \<in> set (calculate_comparison_v2 current_df previous_df group_by_cols ms) \<and> m \<in> set ms
      \<and> m \<in> set (metric_cols current_df) \<and> m \<in> set (metric_cols previous_df)
      \<and> prev r m = Fin 0 \<and> cur r m = Fin C \<and> C \<le> 0
     \<longrightarrow> growth r m = Some (Fin 0))
   \<and> (r' \<in> set (m_rows (calculate_growth_rate merged_df ms')) \<and> m' \<in> set ms'
      \<and> m' \<in> set (m_cols merged_df) \<and> prev r' m' = Fin 0 \<and> cur r' m' = Fin 0
     \<longrightarrow> growth r' m' = Some (Fin 0))"
proof (intro conjI impI)
  assume "r \<in> set (calculate_comparison_v2 current_df previous_df group_by_cols ms) \<and> m \<in> set ms
      \<and> m \<in> set (metric_cols current_df) \<and> m \<in> set (metric_cols previous_df)
      \<and> prev r m = Fin 0 \<and> cur r m = Fin C \<and> C \<le> 0"
  then show "growth r m = Some (Fin 0)"
    using comparison_v2_row(2) [of r current_df previous_df group_by_cols ms m]
    by (simp add: growth_lambda_zero_prior)
next
  assume "r' \<in> set (m_rows (calculate_growth_rate merged_df ms')) \<and> m' \<in> set ms'
      \<and> m' \<in> set (m_cols merged_df) \<and> prev r' m' = Fin 0 \<and> cur r' m' = Fin 0"
  then show "growth r' m' = Some (Fin 0)"
    using growth_rate_row [of r' merged_df ms' m']
    by (simp add: growth_rate_cell_zero_prior)
qed

theorem zero_prior_nonpositive_current_witness:
  "growth (hd (calculate_comparison_v2 refund_current scenario2_previous [''group''] [''amount''])) ''amount''
     = Some (Fin 0)
   \<and> growth (hd (m_rows (calculate_growth_rate
        (projr (merge_monthly_data scenario2_previous scenario2_previous [''group''])) [''amount'']))) ''amount''
     = Some (Fin 0)"
  using zero_prior_nonpositive_current [where
      r = "hd (calculate_comparison_v2 refund_current scenario2_previous [''group''] [''amount''])"
      and current_df = refund_current and previous_df = scenario2_previous
      and group_by_cols = "[''group'']" and ms = "[''amount'']" and m = "''amount''" and C = "- 5"
      and merged_df = "projr (merge_monthly_data scenario2_previous scenario2_previous [''group''])"
      and r' = "hd (m_rows (calculate_growth_rate
        (projr (merge_monthly_data scenario2_previous scenario2_previous [''group''])) [''amount'']))"
      and ms' = "[''amount'']" and m' = "''amount''"]
  by (simp add: scenario_defs merge_defs)

text \<open>
  The claim as stated (minus infinity for a negative current total) fails in the interval
  tool: with the prior total 0 and the current total \<open>-5\<close> the growth rate is 0.0.
\<close>

theorem zero_prior_nonpositive_current_counterexample:
  "column_prev ''amount'' (calculate_comparison_v2 refund_current scenario2_previous [''group''] [''amount''])
     = [Fin 0]
   \<and> column_cur ''amount'' (calculate_comparison_v2 refund_current scenario2_previous [''group''] [''amount''])
     = [Fin (- 5)]
   \<and> column_growth ''amount'' (calculate_comparison_v2 refund_current scenario2_previous [''group''] [''amount''])
     = [Some (Fin 0)]
   \<and> column_growth ''amount'' (calculate_comparison_v2 refund_current scenario2_previous [''group''] [''amount''])
     \<noteq> [Some NInf]"
  by (simp add: scenario_defs merge_defs growth_lambda_def)

text \<open>
  For the record: on the same totals the automatic tool gives plus infinity.  The masked
  division leaves the fill value of its output array wherever the prior total is 0, and the
  two corrections that follow cover a positive and a zero current total only.
\<close>

lemma refund_in_automatic_tool:
  "column_growth ''amount'' (m_rows (calculate_growth_rate
      (projr (merge_monthly_data refund_current scenario2_previous [''group''])) [''amount'']))
     = [Some PInf]"
  by (simp add: scenario_defs merge_defs growth_rate_cell_def masked_divide_def)

subsection \<open>Prior total not zero\<close>




text \<open>Scenario 1 in the interactive tool, end to end from the two aggregates.\<close>

lemma scenario1_interactive:
  "column_key (calculate_comparison scenario1_current scenario1_previous [''region''] [''sales''])
     = [[Text ''East''], [Text ''West'']]
   \<and> column_prev ''sales'' (calculate_comparison scenario1_current scenario1_previous [''region''] [''sales''])
     = [Fin 80, Fin 50]
   \<and> column_cur ''sales'' (calculate_comparison scenario1_current scenario1_previous [''region''] [''sales''])
     = [Fin 100, Fin 0]
   \<and> column_change ''sales'' (calculate_comparison scenario1_current scenario1_previous [''region''] [''sales''])
     = [Some (Fin 20), Some (Fin (- 50))]
   \<and> column_growth ''sales'' (calculate_comparison scenario1_current scenario1_previous [''region''] [''sales''])
     = [Some (Fin 25), Some (Fin (- 100))]"
  by (simp add: scenario_defs merge_defs growth_lambda_def fsub_def round2_def rint_def)

subsection \<open>The merge of the two months is a full outer join\<close>




subsection \<open>A value that equals a cutpoint\<close>

text \<open>
  Claim C5 says that with the cutpoints 100 and 500 the labels are \<^verbatim>\<open><=100\<close>,
  \<^verbatim>\<open>100-500\<close> and \<^verbatim>\<open>>500\<close>, that a value of exactly 100 gets the label
  \<^verbatim>\<open><=100\<close> and a value of exactly 500 the label \<^verbatim>\<open>100-500\<close>.  The labels are
  as claimed.  The binning, which closes each bin on the left, gives the value 100 the
  label \<^verbatim>\<open>100-500\<close> and the value 500 the label \<^verbatim>\<open>>500\<close>: each label that
  the code itself builds says the opposite of where the code puts the cutpoint.
\<close>

theorem scenario3_boundary_values:
  "scenario3_labels = [''<=100'', ''100-500'', ''>500'']
   \<and> frame_column ''loan_amount'' scenario3_binned = [Num 100, Num 500]
   \<and> frame_column interval_col scenario3_binned = [Text ''100-500'', Text ''>500'']"
  by (simp add: binning_defs)

text \<open>In general a value that equals a cutpoint lies in the bin to the right of it.\<close>

lemma cutpoint_goes_right:
  assumes "sorted_wrt (<) cs" "i < length cs"
  shows "bin_index cs (cs ! i) = Suc i"
  using assms
proof (induction cs arbitrary: i)
  case Nil
  then show ?case by simp
next
  case (Cons c cs)
  show ?case
  proof (cases i)
    case 0
    from Cons.prems have "\<forall>x\<in>set cs. \<not> x \<le> c" by auto
    then have "filter (\<lambda>x. x \<le> c) cs = []" by (simp add: filter_empty_conv)
    with 0 show ?thesis by (simp add: bin_index_def)
  next
    case (Suc j)
    with Cons.prems have j: "j < length cs" and s: "sorted_wrt (<) cs" by auto
    from Cons.prems j have "c < cs ! j" by auto
    with Cons.IH [OF s j] Suc show ?thesis by (simp add: bin_index_def)
  qed
qed

subsection \<open>Who sorts the cutpoints\<close>





subsection \<open>Which groups an aggregate has\<close>

text \<open>
  Claim C6, as the code has it.  Let the grouping columns not be among the summed ones (as
  in every call of the tools).  Then every group of the aggregate of
  \<^verbatim>\<open>group_and_summarize\<close> has a key that some row of the input has, with one
  exception: when the frame is grouped by one categorical column (the interval column of
  the interval mode) and the library lists unobserved categories, a category that no row
  has is a group as well, and its totals are 0.  So the dimension mode is sparse, and the
  interval mode is sparse exactly when the library keeps the observed categories only.
\<close>

theorem aggregate_is_sparse:
  "set group_by_cols \<inter> set ms = {}
     \<and> (k, t) \<in> set (groups (group_and_summarize_v2 L df group_by_cols ms))
   \<longrightarrow> (\<exists>r\<in>set (rows df). key_of group_by_cols r = k)
       \<or> (\<not> observed_default L \<and> t m = 0
           \<and> (\<exists>c labels l. group_by_cols = [c] \<and> categories df c = Some labels
                 \<and> l \<in> set labels \<and> k = [Text l]))"
proof (intro impI, elim conjE)
  let ?cs = "filter (\<lambda>col. col \<in> set (columns df)) ms"
  let ?df = "fold (coerce_column L) ?cs df"
  assume disj: "set group_by_cols \<inter> set ms = {}"
    and kt: "(k, t) \<in> set (groups (group_and_summarize_v2 L df group_by_cols ms))"
  from disj have disj': "set group_by_cols \<inter> set ?cs = {}" by auto
  from kt obtain a where a: "groupby_sum (observed_default L) ?df group_by_cols ?cs = Inr a"
    and kta: "(k, t) \<in> set (groups a)"
    by (auto simp: group_and_summarize_v2_def Let_def fold_coerce_column empty_agg_def
        split: sum.splits)
  from kta groupby_sum_keys [OF a]
  have k: "k \<in> set (group_keys (observed_default L) ?df group_by_cols)"
    and t: "t = group_total ?df group_by_cols k" by auto
  show "(\<exists>r\<in>set (rows df). key_of group_by_cols r = k)
       \<or> (\<not> observed_default L \<and> t m = 0
           \<and> (\<exists>c labels l. group_by_cols = [c] \<and> categories df c = Some labels
                 \<and> l \<in> set labels \<and> k = [Text l]))"
  proof (cases "k \<in> set (observed_keys ?df group_by_cols)")
    case True
    then obtain r where "r \<in> set (rows df)" "key_of group_by_cols (coerce_row L ?cs r) = k"
      by (auto simp: observed_keys_iff fold_coerce_column)
    with disj' show ?thesis by (auto simp: key_of_coerce_row)
  next
    case False
    with k have u: "k \<in> set (unobserved_keys ?df group_by_cols)" and no: "\<not> observed_default L"
      by (auto simp: group_keys_def split: if_splits)
    from unobserved_keys_cases(1) [OF u] group_total_unobserved [OF False, of m] t no
    show ?thesis by (simp add: fold_coerce_column)
  qed
qed

theorem aggregate_is_sparse_witness:
  "set [''region''] \<inter> set [''sales''] = {}
   \<and> agg_keys (group_and_summarize_v2 example_pandas scenario1_previous_frame [''region''] [''sales''])
       = [[Text ''East''], [Text ''West'']]
   \<and> agg_totals ''sales'' (group_and_summarize_v2 example_pandas scenario1_previous_frame [''region''] [''sales''])
       = [80, 50]
   \<and> (\<exists>r\<in>set (rows scenario1_previous_frame). key_of [''region''] r = [Text ''East''])"
  using aggregate_is_sparse [of "[''region'']" "[''sales'']"
      "fst (hd (groups (group_and_summarize_v2 example_pandas scenario1_previous_frame [''region''] [''sales''])))"
      "snd (hd (groups (group_and_summarize_v2 example_pandas scenario1_previous_frame [''region''] [''sales''])))"
      example_pandas scenario1_previous_frame "''sales''"]
  by (simp add: groupby_defs frame_defs)

text \<open>
  The claim as stated (an interval label without rows yields no aggregate row) fails with
  a library that lists unobserved categories: in scenario 3 no row has the label
  \<^verbatim>\<open><=100\<close>, and the aggregate has a row for it, with the total 0.
\<close>

theorem empty_interval_has_a_row_counterexample:
  "frame_column interval_col scenario3_binned = [Text ''100-500'', Text ''>500'']
   \<and> agg_keys (group_and_summarize_v2 example_pandas (projr scenario3_binned) [interval_col] [''balance''])
       = [[Text ''100-500''], [Text ''>500''], [Text ''<=100'']]
   \<and> agg_totals ''balance''
         (group_and_summarize_v2 example_pandas (projr scenario3_binned) [interval_col] [''balance''])
       = [10, 20, 0]"
  by (simp add: scenario3_binned_eval frame_column_def groupby_defs row_of_def example_pandas_def
      interval_col_fresh)

subsection \<open>Rows with a missing key\<close>

text \<open>
  Claim C8.  A row with a missing value in a grouping column takes no part in the
  aggregation: the aggregate of \<^verbatim>\<open>group_and_summarize\<close> (interactive tool) and of
  \<^verbatim>\<open>aggregate_data\<close> (automatic tool) is the same with and without such rows, and no
  key of the aggregate holds a missing value.  In the interval mode a row whose binning
  value is not read as a number gets no label, and the aggregate by interval is the same
  with and without such rows.
\<close>

theorem missing_key_rows_are_excluded:
  "group_and_summarize L (drop_incomplete df group_by_cols) group_by_cols ms
     = group_and_summarize L df group_by_cols ms
   \<and> (\<forall>k\<in>keys_of (group_and_summarize L df group_by_cols ms). Missing \<notin> set k)
   \<and> aggregate_data L (drop_incomplete df group_by_cols) group_by_cols ms
     = aggregate_data L df group_by_cols ms
   \<and> (aggregate_data L df group_by_cols ms = Inr a \<longrightarrow> (\<forall>k\<in>keys_of a. Missing \<notin> set k))
   \<and> (interval_col \<notin> set ms' \<and> apply_interval_binning L df metric_name cutpoints labels = Inr binned
       \<longrightarrow> (\<exists>binned'.
             apply_interval_binning L (drop_non_numeric L df metric_name) metric_name cutpoints labels
               = Inr binned'
             \<and> group_and_summarize_v2 L binned' [interval_col] ms'
               = group_and_summarize_v2 L binned [interval_col] ms'))"
  using group_and_summarize_drop [of L df group_by_cols ms]
    group_and_summarize_no_missing [of _ L df group_by_cols ms]
    aggregate_data_drop [of L df group_by_cols ms]
    aggregate_data_no_missing [of L df group_by_cols ms a]
    binning_drop [of ms' L df metric_name cutpoints labels binned]
  by blast

theorem missing_key_rows_are_excluded_witness:
  "agg_keys (group_and_summarize example_pandas missing_region_frame [''region''] [''sales''])
     = [[Text ''West''], [Text ''East'']]
   \<and> agg_totals ''sales'' (group_and_summarize example_pandas missing_region_frame [''region''] [''sales''])
     = [50, 105]
   \<and> agg_totals ''sales'' (projr (aggregate_data example_pandas missing_region_frame [''region''] [''sales'']))
     = [50, 105]
   \<and> frame_column interval_col
         (apply_interval_binning example_pandas unparsed_loan_frame ''loan_amount'' [100] [''<=100'', ''>100''])
     = [Text ''<=100'', Missing, Text ''>100'']
   \<and> agg_totals ''balance'' (group_and_summarize_v2 example_pandas
         (projr (apply_interval_binning example_pandas unparsed_loan_frame ''loan_amount'' [100]
                   [''<=100'', ''>100''])) [interval_col] [''balance''])
     = [10, 20]"
proof -
  let ?dropped = "drop_incomplete missing_region_frame [''region'']"
  let ?agg = "aggregate_data example_pandas missing_region_frame [''region''] [''sales'']"
  let ?bin = "apply_interval_binning example_pandas unparsed_loan_frame ''loan_amount'' [100]
                [''<=100'', ''>100'']"
  let ?bin' = "apply_interval_binning example_pandas
                 (drop_non_numeric example_pandas unparsed_loan_frame ''loan_amount'') ''loan_amount'' [100]
                 [''<=100'', ''>100'']"
  note region = missing_key_rows_are_excluded [of example_pandas missing_region_frame
      "[''region'']" "[''sales'']" "projr ?agg"]
  note loan = missing_key_rows_are_excluded [of example_pandas unparsed_loan_frame _ _ _
      "[''balance'']" "''loan_amount''" "[100]" "[''<=100'', ''>100'']" "projr ?bin"]
  have dropped: "agg_keys (group_and_summarize example_pandas ?dropped [''region''] [''sales''])
                   = [[Text ''West''], [Text ''East'']]
                 \<and> agg_totals ''sales'' (group_and_summarize example_pandas ?dropped [''region''] [''sales''])
                   = [50, 105]"
    by (simp add: groupby_defs ex_defs drop_incomplete_def)
  have same: "group_and_summarize example_pandas ?dropped [''region''] [''sales'']
                = group_and_summarize example_pandas missing_region_frame [''region''] [''sales'']"
    by (rule region [THEN conjunct1])
  have same_agg: "aggregate_data example_pandas ?dropped [''region''] [''sales''] = ?agg"
    by (rule region [THEN conjunct2, THEN conjunct2, THEN conjunct1])
  have "agg_totals ''sales'' (projr (aggregate_data example_pandas ?dropped [''region''] [''sales'']))
          = [50, 105]"
    by (simp add: groupby_defs ex_defs drop_incomplete_def)
  with same_agg have agg: "agg_totals ''sales'' (projr ?agg) = [50, 105]" by simp
  have binned: "frame_column interval_col ?bin = [Text ''<=100'', Missing, Text ''>100'']"
    by (simp add: apply_interval_binning_def coerce_column_def frame_column_def bin_index_def
        Let_def ex_defs interval_col_fresh)
  have "\<exists>b. ?bin = Inr b"
    by (simp add: apply_interval_binning_def ex_defs Let_def)
  then have bin_ok: "interval_col \<notin> set [''balance''] \<and> ?bin = Inr (projr ?bin)"
    by (auto simp: interval_col_fresh)
  have "interval_col \<notin> set [''balance''] \<and> ?bin = Inr (projr ?bin)
          \<longrightarrow> (\<exists>binned'. ?bin' = Inr binned'
                 \<and> group_and_summarize_v2 example_pandas binned' [interval_col] [''balance'']
                   = group_and_summarize_v2 example_pandas (projr ?bin) [interval_col] [''balance''])"
    by (rule loan [THEN conjunct2, THEN conjunct2, THEN conjunct2, THEN conjunct2])
  with bin_ok obtain binned' where b': "?bin' = Inr binned'"
    and eq: "group_and_summarize_v2 example_pandas binned' [interval_col] [''balance'']
               = group_and_summarize_v2 example_pandas (projr ?bin) [interval_col] [''balance'']"
    by blast
  from b' have pb: "projr ?bin' = binned'" by simp
  have "agg_totals ''balance'' (group_and_summarize_v2 example_pandas (projr ?bin') [interval_col] [''balance''])
          = [10, 20]"
    by (simp add: apply_interval_binning_def drop_non_numeric_def groupby_defs bin_index_def
        ex_defs interval_col_fresh)
  with pb eq have totals: "agg_totals ''balance''
      (group_and_summarize_v2 example_pandas (projr ?bin) [interval_col] [''balance'']) = [10, 20]"
    by simp
  from dropped same agg binned totals show ?thesis by simp
qed

subsection \<open>The classification of the columns reads the current month only\<close>

lemma run_columns:
  "dimension_columns (fst (run L (Some current) (Some previous) select self))
     = fst (analyze_columns L current)"
  "metric_columns (fst (run L (Some current) (Some previous) select self))
     = snd (analyze_columns L current)"
  by (simp_all add: run_def Let_def)

lemma run_analysis_columns:
  "auto_dimension_columns (fst (run_analysis L current_df previous_df self))
     = fst (identify_column_types L (exclude_set self) current_df)"
  "auto_metric_columns (fst (run_analysis L current_df previous_df self))
     = snd (identify_column_types L (exclude_set self) current_df)"
  by (simp_all add: run_analysis_def Let_def split: sum.splits)

text \<open>
  Claim C9.  The dimension and metric column lists that a run stores are computed from the
  frame of the current month alone: two runs on the same current frame and different prior
  frames (whatever the dimension prompt is answered, whatever the analyzer object held
  before) store the same two lists, in the interactive tool and in the automatic tool.
\<close>

theorem classification_from_current_only:
  "dimension_columns (fst (run L (Some current) (Some previous1) select1 self1))
     = dimension_columns (fst (run L (Some current) (Some previous2) select2 self2))
   \<and> metric_columns (fst (run L (Some current) (Some previous1) select1 self1))
     = metric_columns (fst (run L (Some current) (Some previous2) select2 self2))
   \<and> auto_dimension_columns (fst (run_analysis L current previous1 auto_self))
     = auto_dimension_columns (fst (run_analysis L current previous2 auto_self))
   \<and> auto_metric_columns (fst (run_analysis L current previous1 auto_self))
     = auto_metric_columns (fst (run_analysis L current previous2 auto_self))"
  by (simp only: run_columns run_analysis_columns)

theorem classification_from_current_only_witness:
  "dimension_columns (fst (run example_pandas (Some scenario1_current_frame)
       (Some scenario1_previous_frame) id new_analyzer)) = [''region'']
   \<and> dimension_columns (fst (run example_pandas (Some scenario1_current_frame)
       (Some scenario1_current_frame) id new_analyzer)) = [''region'']
   \<and> metric_columns (fst (run example_pandas (Some scenario1_current_frame)
       (Some scenario1_current_frame) id new_analyzer)) = [''sales'']
   \<and> auto_metric_columns (fst (run_analysis example_pandas scenario1_current_frame
       scenario1_current_frame (new_auto_analyzer example_pandas []))) = [''sales'']"
  using classification_from_current_only [of example_pandas scenario1_current_frame
      scenario1_previous_frame id new_analyzer scenario1_current_frame id new_analyzer
      "new_auto_analyzer example_pandas []"]
  by (simp add: run_columns run_analysis_columns analyze_columns_def analyze_column_def
      identify_column_types_def identify_column_def non_null_values_def frame_defs
      new_auto_analyzer_def default_exclude_def)

subsection \<open>The report generator\<close>

text \<open>
  Claim C10.  In \<^verbatim>\<open>data_analysis_report.py\<close>, whatever the current value, a prior
  month value that is 0 or missing makes the month-over-month growth rate a missing value
  (NaN).  This is a third policy: for a prior 0 and a positive current value the automatic
  tool answers plus infinity and the interactive tool 100.0.
\<close>

theorem report_prior_zero_or_missing:
  "(last_month_value = Fin 0 \<or> last_month_value = NaN
     \<longrightarrow> fst (calculate_growth_rates current_value last_month_value last_year_value) = NaN)
   \<and> (0 < C \<longrightarrow> growth_rate_cell (Fin C) (Fin 0) = PInf \<and> growth_lambda (Fin C) (Fin 0) = Fin 100
        \<and> fst (calculate_growth_rates (Fin C) (Fin 0) last_year_value) = NaN)"
  by (auto simp: calculate_growth_rates_def isna_def growth_rate_cell_zero_prior
      growth_lambda_zero_prior)

theorem report_prior_zero_or_missing_witness:
  "fst (calculate_growth_rates (Fin 40) (Fin 0) (Fin 50)) = NaN
   \<and> fst (calculate_growth_rates (Fin 40) NaN (Fin 50)) = NaN
   \<and> growth_rate_cell (Fin 40) (Fin 0) = PInf \<and> growth_lambda (Fin 40) (Fin 0) = Fin 100"
  using report_prior_zero_or_missing [of "Fin 0" "Fin 40" "Fin 50" 40]
    report_prior_zero_or_missing [of NaN "Fin 40" "Fin 50" 40]
  by simp

end
